theory Spec2Isabelle
  imports Main "HOL-Library.AList" "HOL-Library.Log_Nat"
begin

section \<open>Python values, exceptions and the log\<close>

text \<open>
  The module \<^verbatim>\<open>ElasticSearch/__init__.py\<close> is a thin class around the
  \<^verbatim>\<open>elasticsearch\<close> client library. Documents, queries, settings, mappings and the
  responses of the library are Python values of JSON shape. A \<^verbatim>\<open>dict\<close> is an association
  list in insertion order.
\<close>

datatype pyval =
    PNone
  | PBool bool
  | PInt int
  | PStr string
  | PList "pyval list"
  | PDict "(string \<times> pyval) list"

type_synonym pydict = "(string \<times> pyval) list"

text \<open>
  The exceptions that occur. All of them are subclasses of \<^verbatim>\<open>Exception\<close>, which is what the
  handlers of the module catch (\<^verbatim>\<open>except Exception as ex\<close>). \<open>ClientError\<close> stands for
  whatever the client library, \<^verbatim>\<open>ssl\<close> or the transport raises.
\<close>

datatype exn =
    ClientError string
  | AttributeError string
  | KeyError string
  | TypeError
  | OutOfRange

text \<open>\<^verbatim>\<open>bool(v)\<close> and the test of \<^verbatim>\<open>if v:\<close>.\<close>

fun truthy :: "pyval \<Rightarrow> bool" where
  "truthy PNone = False"
| "truthy (PBool b) = b"
| "truthy (PInt i) = (i \<noteq> 0)"
| "truthy (PStr s) = (s \<noteq> [])"
| "truthy (PList xs) = (xs \<noteq> [])"
| "truthy (PDict d) = (d \<noteq> [])"

text \<open>
  \<^verbatim>\<open>v[k]\<close> for a string key \<open>k\<close>: a missing key raises \<^verbatim>\<open>KeyError\<close>, a value that is not
  a dictionary raises \<^verbatim>\<open>TypeError\<close>.
\<close>

fun subscript :: "pyval \<Rightarrow> string \<Rightarrow> exn + pyval" where
  "subscript (PDict d) k = (case map_of d k of None \<Rightarrow> Inl (KeyError k) | Some v \<Rightarrow> Inr v)"
| "subscript v k = Inl TypeError"

text \<open>
  A log record: the method of the logger that was called, and the f-string as the list of its
  literal pieces and interpolated values (\<open>Quoted n\<close> is \<^verbatim>\<open>'{n}'\<close>, the value between
  single quotes).
\<close>

datatype log_level = INFO | ERROR | EXCEPTION

datatype log_part = Lit string | Quoted string | Str string | Val pyval | Exc exn

type_synonym log_entry = "log_level \<times> log_part list"

section \<open>Floats and datetimes\<close>

text \<open>
  A Python \<^verbatim>\<open>float\<close> is an IEEE 754 binary64 number; the finite ones are rationals.
  \<open>fl x\<close> is the float nearest to the rational \<open>x\<close>, ties to the even significand, which
  is the result of every correctly rounded float operation whose exact result is \<open>x\<close>
  (53 bits of significand, least exponent \<open>-1022\<close>; the values that occur here are far
  below the overflow threshold).
\<close>

type_synonym pyfloat = rat

definition rne :: "rat \<Rightarrow> int" where
  "rne q =
     (let n = \<lfloor>q\<rfloor>; r = q - of_int n
      in if r < 1 / 2 then n
         else if 1 / 2 < r then n + 1
         else if even n then n else n + 1)"

definition ilog2 :: "rat \<Rightarrow> int" where
  "ilog2 x =
     (case quotient_of x of
        (a, b) \<Rightarrow> (let k = bitlen a - bitlen b in if power_int 2 k \<le> x then k else k - 1))"

definition fl :: "rat \<Rightarrow> pyfloat" where
  "fl x =
     (if x = 0 then 0
      else (let u = power_int 2 (max (ilog2 \<bar>x\<bar>) (- 1022) - 52)
            in sgn x * of_int (rne (\<bar>x\<bar> / u)) * u))"

text \<open>\<^verbatim>\<open>int(x)\<close> of a float truncates towards zero.\<close>

definition py_int :: "pyfloat \<Rightarrow> int" where
  "py_int x = (if 0 \<le> x then \<lfloor>x\<rfloor> else \<lceil>x\<rceil>)"

text \<open>
  A \<^verbatim>\<open>datetime\<close> is its time zone (\<open>None\<close> for a naive value, read as local time) and
  the instant it denotes, in microseconds since the epoch.
\<close>

type_synonym tzinfo = string

record datetime =
  tzinfo :: "tzinfo option"
  epoch_us :: int

definition pytz_utc :: tzinfo where
  "pytz_utc = ''UTC''"

text \<open>
  \<^verbatim>\<open>d.timestamp()\<close>: for an aware value the difference to the epoch, a count of
  microseconds, divided by \<open>10^6\<close> (one correctly rounded division); for a naive value the
  whole seconds plus \<^verbatim>\<open>microsecond / 1e6\<close> (a float division, then a float addition).
\<close>

definition timestamp :: "datetime \<Rightarrow> pyfloat" where
  "timestamp d =
     (case tzinfo d of
        Some tz \<Rightarrow> fl (of_int (epoch_us d) / 1000000)
      | None \<Rightarrow> fl (of_int (epoch_us d div 1000000) + fl (of_int (epoch_us d mod 1000000) / 1000000)))"

text \<open>
  \<^verbatim>\<open>datetime.fromtimestamp(t, tz)\<close>: the float is split into its integral and fractional
  part (\<^verbatim>\<open>modf\<close>, exact), the fraction times \<open>1e6\<close> is rounded half to even to a count of
  microseconds, and a value outside the years 1 to 9999 is refused.
\<close>

definition fromtimestamp :: "pyfloat \<Rightarrow> tzinfo option \<Rightarrow> exn + datetime" where
  "fromtimestamp t tz =
     (let ip = py_int t;
          us = ip * 1000000 + rne (fl ((t - of_int ip) * 1000000))
      in if - 62135596800000000 \<le> us \<and> us \<le> 253402300799999999
         then Inr \<lparr>tzinfo = tz, epoch_us = us\<rparr>
         else Inl OutOfRange)"

section \<open>The conversion helpers\<close>

definition to_es_timestamp :: "datetime \<Rightarrow> int" where
  "to_es_timestamp datetime_obj = py_int (fl (timestamp datetime_obj * 1000))"

text \<open>The argument \<open>tz\<close> is \<open>None\<close> when the caller omits it; its default is \<^verbatim>\<open>pytz.utc\<close>.\<close>

definition from_es_timestamp :: "int \<Rightarrow> tzinfo option option \<Rightarrow> exn + datetime" where
  "from_es_timestamp ts tz =
     fromtimestamp (fl (of_int ts / 1000)) (case tz of None \<Rightarrow> Some pytz_utc | Some z \<Rightarrow> z)"

section \<open>The environment: client library, TLS and clock\<close>

text \<open>
  The client library is not part of the module; it is a parameter. Every call reads and
  changes the world \<open>'w\<close> (the remote engine, the network, the file system) and either returns
  a value or raises. \<open>ssl_context\<close> is the preparation of the TLS context from the trust anchor,
  \<open>Elasticsearch\<close> the constructor of the client, \<open>datetime_now\<close> the reading of the clock.
\<close>

record 'w es_lib =
  ssl_context :: "string \<Rightarrow> 'w \<Rightarrow> (exn + unit) \<times> 'w"
  Elasticsearch :: "string \<Rightarrow> string \<Rightarrow> string \<Rightarrow> 'w \<Rightarrow> (exn + unit) \<times> 'w"
  es_info :: "'w \<Rightarrow> (exn + pyval) \<times> 'w"
  es_ping :: "'w \<Rightarrow> (exn + pyval) \<times> 'w"
  indices_exists :: "string \<Rightarrow> 'w \<Rightarrow> (exn + pyval) \<times> 'w"
  indices_create :: "string \<Rightarrow> pyval \<Rightarrow> pyval \<Rightarrow> 'w \<Rightarrow> (exn + pyval) \<times> 'w"
  indices_delete :: "string \<Rightarrow> 'w \<Rightarrow> (exn + pyval) \<times> 'w"
  es_delete_by_query :: "string \<Rightarrow> pyval \<Rightarrow> 'w \<Rightarrow> (exn + pyval) \<times> 'w"
  es_search :: "string \<Rightarrow> pyval \<Rightarrow> int \<Rightarrow> 'w \<Rightarrow> (exn + pyval) \<times> 'w"
  es_index :: "string \<Rightarrow> pydict \<Rightarrow> 'w \<Rightarrow> (exn + pyval) \<times> 'w"
  datetime_now :: "'w \<Rightarrow> datetime"

text \<open>
  The state a call of the module runs in: the world, whether the instance attribute
  \<^verbatim>\<open>__es\<close> is bound (the constructor binds it once the client was created), the records
  written to the logger, and the heap of the caller's dictionaries, by reference.
\<close>

record 'w state =
  world :: 'w
  bound :: bool
  logged :: "log_entry list"
  heap :: "nat \<Rightarrow> pydict"

definition ROOT_CA :: string where
  "ROOT_CA = ''/etc/ssl/certs''"

section \<open>The class ElasticSearch\<close>

text \<open>
  \<^verbatim>\<open>self.client().m(...)\<close> and \<^verbatim>\<open>self.indices().m(...)\<close>: reading the attribute
  \<^verbatim>\<open>__es\<close> raises \<^verbatim>\<open>AttributeError\<close> when it is not bound; otherwise the library call runs
  on the world.
\<close>

definition client :: "'w state \<Rightarrow> ('w \<Rightarrow> (exn + 'a) \<times> 'w) \<Rightarrow> (exn + 'a) \<times> 'w state" where
  "client s m =
     (if bound s then (case m (world s) of (r, w) \<Rightarrow> (r, s\<lparr>world := w\<rparr>))
      else (Inl (AttributeError ''_ElasticSearch__es''), s))"

definition exception :: "log_part list \<Rightarrow> 'w state \<Rightarrow> 'w state" where
  "exception msg s = s\<lparr>logged := logged s @ [(EXCEPTION, msg)]\<rparr>"

definition info :: "log_part list \<Rightarrow> 'w state \<Rightarrow> 'w state" where
  "info msg s = s\<lparr>logged := logged s @ [(INFO, msg)]\<rparr>"

definition error :: "log_part list \<Rightarrow> 'w state \<Rightarrow> 'w state" where
  "error msg s = s\<lparr>logged := logged s @ [(ERROR, msg)]\<rparr>"

definition ping :: "'w es_lib \<Rightarrow> 'w state \<Rightarrow> (exn + bool) \<times> 'w state" where
  "ping L s =
     (case client s (es_ping L) of
        (Inl ex, s1) \<Rightarrow> (Inl ex, s1)
      | (Inr v, s1) \<Rightarrow> (Inr (truthy v), s1))"

definition check_index :: "'w es_lib \<Rightarrow> string \<Rightarrow> 'w state \<Rightarrow> (exn + bool) \<times> 'w state" where
  "check_index L name s =
     (case client s (indices_exists L name) of
        (Inl ex, s1) \<Rightarrow> (Inl ex, s1)
      | (Inr v, s1) \<Rightarrow> (Inr (truthy v), s1))"

definition create_index ::
  "'w es_lib \<Rightarrow> string \<Rightarrow> pyval \<Rightarrow> pyval \<Rightarrow> 'w state \<Rightarrow> (exn + bool) \<times> 'w state" where
  "create_index L name settings mappings s =
     (case check_index L name s of
        (Inl ex, s1) \<Rightarrow> (Inl ex, s1)
      | (Inr True, s1) \<Rightarrow> (Inr False, s1)
      | (Inr False, s1) \<Rightarrow>
          (case client s1 (indices_create L name settings mappings) of
             (Inr r, s2) \<Rightarrow> (Inr True, s2)
           | (Inl ex, s2) \<Rightarrow>
               (Inr False,
                exception [Lit ''  Message: '', Exc ex]
                  (exception [Lit ''Got an error while creating the '', Quoted name,
                              Lit '' Elasticsearch index.''] s2))))"

definition empty_index :: "'w es_lib \<Rightarrow> string \<Rightarrow> 'w state \<Rightarrow> (exn + bool) \<times> 'w state" where
  "empty_index L name s =
     (let match_all_query = PDict [(''match_all'', PDict [])]
      in case client s (es_delete_by_query L name match_all_query) of
           (Inr r, s1) \<Rightarrow>
             (Inr True,
              info [Lit ''Successfully emptied the '', Quoted name, Lit '' Elasticsearch index.''] s1)
         | (Inl ex, s1) \<Rightarrow>
             (Inr False,
              exception [Lit ''Got an exception while emptying '', Quoted name,
                         Lit '' Elasticsearch index: '', Exc ex] s1))"

definition delete_index :: "'w es_lib \<Rightarrow> string \<Rightarrow> 'w state \<Rightarrow> (exn + bool) \<times> 'w state" where
  "delete_index L name s =
     (case client s (indices_exists L name) of
        (Inl ex, s1) \<Rightarrow> (Inl ex, s1)
      | (Inr v, s1) \<Rightarrow>
          if \<not> truthy v then (Inr False, s1)
          else
            (let failed = (\<lambda>ex s'.
                   (Inr False,
                    exception [Lit ''Got an exception while trying to delete '', Quoted name,
                               Lit '' Elasticsearch index: '', Exc ex] s'))
             in case client s1 (indices_delete L name) of
                  (Inl ex, s2) \<Rightarrow> failed ex s2
                | (Inr response, s2) \<Rightarrow>
                    (case subscript response ''acknowledged'' of
                       Inl ex \<Rightarrow> failed ex s2
                     | Inr a \<Rightarrow>
                         if truthy a
                         then (Inr True,
                               info [Lit ''The '', Quoted name,
                                     Lit '' Elasticsearch index was successfully deleted.''] s2)
                         else (Inr False,
                               error [Lit ''Got an error while deleting the '', Quoted name,
                                      Lit '' Elasticsearch index!''] s2))))"

text \<open>
  The arguments \<open>raw\<close> and \<open>size\<close> are \<open>None\<close> when the caller omits them; their defaults are
  \<^verbatim>\<open>False\<close> and \<^verbatim>\<open>10000\<close>.
\<close>

definition query ::
  "'w es_lib \<Rightarrow> string \<Rightarrow> pyval \<Rightarrow> bool option \<Rightarrow> int option \<Rightarrow> 'w state
     \<Rightarrow> (exn + pyval) \<times> 'w state" where
  "query L index q raw_arg size_arg s =
     (let raw = (case raw_arg of None \<Rightarrow> False | Some b \<Rightarrow> b);
          sz = (case size_arg of None \<Rightarrow> 10000 | Some n \<Rightarrow> n);
          failed = (\<lambda>ex s'.
            (Inr PNone,
             exception [Lit ''Got an exception while trying to search '', Quoted index,
                        Lit '' Elasticsearch index: '', Exc ex] s'));
          body = PDict [(''query'', q)]
      in case client s (es_search L index body sz) of
           (Inl ex, s1) \<Rightarrow> failed ex s1
         | (Inr r, s1) \<Rightarrow>
             if raw then (Inr r, s1)
             else (case subscript r ''hits'' of
                     Inl ex \<Rightarrow> failed ex s1
                   | Inr h \<Rightarrow>
                       (case subscript h ''hits'' of
                          Inl ex \<Rightarrow> failed ex s1
                        | Inr hs \<Rightarrow> (Inr hs, s1))))"

text \<open>The argument \<open>body\<close> is the reference of the caller's dictionary.\<close>

definition store :: "'w es_lib \<Rightarrow> string \<Rightarrow> nat \<Rightarrow> 'w state \<Rightarrow> (exn + bool) \<times> 'w state" where
  "store L index body s =
     (case client s (es_index L index (heap s body)) of
        (Inl ex, s1) \<Rightarrow>
          (Inr False,
           exception [Lit ''Got an exception while trying to store data in '', Quoted index,
                      Lit '' Elasticsearch index: '', Exc ex] s1)
      | (Inr r, s1) \<Rightarrow> (Inr True, s1))"

text \<open>The method \<^verbatim>\<open>setup\<close> (named \<open>setup_es\<close> here).\<close>

definition setup_es :: "'w es_lib \<Rightarrow> 'w state \<Rightarrow> (exn + bool) \<times> 'w state" where
  "setup_es L s =
     (case check_index L ''data'' s of
        (Inl ex, s1) \<Rightarrow> (Inl ex, s1)
      | (Inr False, s1) \<Rightarrow>
          (let settings = PDict [(''number_of_shards'', PInt 2), (''number_of_replicas'', PInt 2)];
               mappings = PDict [(''properties'', PDict
                 [(''id'', PDict [(''type'', PStr ''long'')]),
                  (''timestamp'', PDict
                     [(''type'', PStr ''date''),
                      (''format'', PStr ''yyyy-MM-dd HH:mm:ss||yyyy-MM-dd||epoch_millis'')])])]
           in create_index L ''data'' settings mappings s1)
      | (Inr True, s1) \<Rightarrow> (Inr True, s1))"

text \<open>The argument \<open>query\<close> is \<^verbatim>\<open>None\<close> when the caller omits it.\<close>

definition get :: "'w es_lib \<Rightarrow> pyval \<Rightarrow> 'w state \<Rightarrow> (exn + pyval) \<times> 'w state" where
  "get L q s = query L ''data'' (if q = PNone then PDict [] else q) None None s"

definition put :: "'w es_lib \<Rightarrow> nat \<Rightarrow> 'w state \<Rightarrow> (exn + bool) \<times> 'w state" where
  "put L body s =
     (let ts = to_es_timestamp (datetime_now L (world s));
          s1 = s\<lparr>heap := (heap s)(body := AList.update ''timestamp'' (PInt ts) (heap s body))\<rparr>
      in store L ''data'' body s1)"

text \<open>
  The constructor. The TLS context is prepared before the \<^verbatim>\<open>try\<close> block; the creation of
  the client, the \<^verbatim>\<open>info\<close> probe, the reading of the version and \<^verbatim>\<open>setup\<close> are inside
  it. The result \<open>Inr ()\<close> is the constructed object; its attribute is bound in the state.
\<close>

definition init ::
  "'w es_lib \<Rightarrow> string \<Rightarrow> string \<Rightarrow> string \<Rightarrow> 'w state \<Rightarrow> (exn + unit) \<times> 'w state" where
  "init L url user secret s0 =
     (let s = s0\<lparr>bound := False\<rparr>;
          failed = (\<lambda>ex s'.
            (Inr (),
             exception [Lit ''Got an exception while connecting to Elasticsearch by URL '',
                        Str url, Lit '': '', Exc ex] s'))
      in case ssl_context L ROOT_CA (world s) of
           (Inl ex, w) \<Rightarrow> (Inl ex, s\<lparr>world := w\<rparr>)
         | (Inr c, w) \<Rightarrow>
             (case Elasticsearch L url user secret w of
                (Inl ex, w1) \<Rightarrow> failed ex (s\<lparr>world := w1\<rparr>)
              | (Inr c, w1) \<Rightarrow>
                  (case client (s\<lparr>world := w1, bound := True\<rparr>) (es_info L) of
                     (Inl ex, s1) \<Rightarrow> failed ex s1
                   | (Inr i, s1) \<Rightarrow>
                       (case subscript i ''version'' of
                          Inl ex \<Rightarrow> failed ex s1
                        | Inr v \<Rightarrow>
                            (case subscript v ''number'' of
                               Inl ex \<Rightarrow> failed ex s1
                             | Inr n \<Rightarrow>
                                 (case setup_es L
                                    (info [Lit ''Successfully connected to Elasticsearch. Server version: '',
                                           Val n] s1) of
                                    (Inl ex, s2) \<Rightarrow> failed ex s2
                                  | (Inr r, s2) \<Rightarrow> (Inr (), s2)))))))"

section \<open>Instances of the environment\<close>

text \<open>
  Three environments on which the class is evaluated at concrete inputs. In \<open>mem_lib\<close> the
  engine is a table from index names to their documents, and no call fails except creating
  an index that exists and searching or deleting one that does not. In \<open>down_lib\<close> the TLS
  context can be prepared but every call of the client raises. In \<open>no_ca_lib\<close> the
  preparation of the TLS context raises as well.
\<close>

type_synonym mem_world = "(string \<times> pydict list) list"

definition acknowledged :: pyval where
  "acknowledged = PDict [(''acknowledged'', PBool True)]"

definition mem_lib :: "mem_world es_lib" where
  "mem_lib =
     \<lparr>ssl_context = (\<lambda>ca w. (Inr (), w)),
      Elasticsearch = (\<lambda>url user secret w. (Inr (), w)),
      es_info = (\<lambda>w. (Inr (PDict [(''version'', PDict [(''number'', PStr ''8.0.0'')])]), w)),
      es_ping = (\<lambda>w. (Inr (PBool True), w)),
      indices_exists = (\<lambda>n w. (Inr (PBool (map_of w n \<noteq> None)), w)),
      indices_create = (\<lambda>n st mp w.
        if map_of w n \<noteq> None then (Inl (ClientError ''resource_already_exists_exception''), w)
        else (Inr acknowledged, w @ [(n, [])])),
      indices_delete = (\<lambda>n w.
        if map_of w n = None then (Inl (ClientError ''index_not_found_exception''), w)
        else (Inr acknowledged, AList.delete n w)),
      es_delete_by_query = (\<lambda>n q w.
        if map_of w n = None then (Inl (ClientError ''index_not_found_exception''), w)
        else (Inr (PDict [(''deleted'', PInt (int (length (the (map_of w n)))))]),
              AList.update n [] w)),
      es_search = (\<lambda>n body sz w.
        case map_of w n of
          None \<Rightarrow> (Inl (ClientError ''index_not_found_exception''), w)
        | Some ds \<Rightarrow>
            (Inr (PDict [(''hits'', PDict [(''hits'',
                    PList (map (\<lambda>d. PDict [(''_source'', PDict d)]) (take (nat sz) ds)))])]), w)),
      es_index = (\<lambda>n d w.
        (Inr (PDict [(''result'', PStr ''created'')]),
         AList.update n ((case map_of w n of None \<Rightarrow> [] | Some ds \<Rightarrow> ds) @ [d]) w)),
      datetime_now = (\<lambda>w. \<lparr>tzinfo = None, epoch_us = 1652400000250000\<rparr>)\<rparr>"

definition connection_error :: exn where
  "connection_error = ClientError ''ConnectionError''"

definition down_lib :: "unit es_lib" where
  "down_lib =
     \<lparr>ssl_context = (\<lambda>ca w. (Inr (), w)),
      Elasticsearch = (\<lambda>url user secret w. (Inr (), w)),
      es_info = (\<lambda>w. (Inl connection_error, w)),
      es_ping = (\<lambda>w. (Inl connection_error, w)),
      indices_exists = (\<lambda>n w. (Inl connection_error, w)),
      indices_create = (\<lambda>n st mp w. (Inl connection_error, w)),
      indices_delete = (\<lambda>n w. (Inl connection_error, w)),
      es_delete_by_query = (\<lambda>n q w. (Inl connection_error, w)),
      es_search = (\<lambda>n body sz w. (Inl connection_error, w)),
      es_index = (\<lambda>n d w. (Inl connection_error, w)),
      datetime_now = (\<lambda>w. \<lparr>tzinfo = None, epoch_us = 1652400000250000\<rparr>)\<rparr>"

definition no_ca_lib :: "unit es_lib" where
  "no_ca_lib = down_lib\<lparr>ssl_context := (\<lambda>ca w. (Inl (ClientError ''IsADirectoryError''), w))\<rparr>"

text \<open>
  In \<open>readonly_lib\<close> the engine of \<open>mem_lib\<close> refuses to create an index and does not
  acknowledge a deletion.
\<close>

definition readonly_lib :: "mem_world es_lib" where
  "readonly_lib =
     mem_lib\<lparr>indices_create := (\<lambda>n st mp w. (Inl (ClientError ''cluster_block_exception''), w)),
             indices_delete := (\<lambda>n w. (Inr (PDict [(''acknowledged'', PBool False)]), w))\<rparr>"

text \<open>
  In \<open>clock_2038_lib\<close> the engine is that of \<open>mem_lib\<close> and the clock reads
  2038-01-19 03:14:08.003, which is 2147483648003 milliseconds after the epoch.
\<close>

definition clock_2038_lib :: "mem_world es_lib" where
  "clock_2038_lib =
     mem_lib\<lparr>datetime_now := (\<lambda>w. \<lparr>tzinfo = None, epoch_us = 2147483648003000\<rparr>)\<rparr>"

text \<open>A state with the given world, an empty log and a heap of empty dictionaries.\<close>

definition fresh :: "'w \<Rightarrow> bool \<Rightarrow> 'w state" where
  "fresh w b = \<lparr>world = w, bound = b, logged = [], heap = (\<lambda>r. [])\<rparr>"

section \<open>Basic facts\<close>

lemma store_heap: "heap (snd (store L index body s)) = heap s"
  by (simp add: store_def client_def exception_def split: prod.splits sum.splits)

lemma now_ms: "to_es_timestamp \<lparr>tzinfo = None, epoch_us = 1652400000250000\<rparr> = 1652400000250"
  by code_simp

lemma stamp_2038: "to_es_timestamp \<lparr>tzinfo = None, epoch_us = 2147483648003000\<rparr> = 2147483648002"
  by code_simp

section \<open>Writing a document\<close>

text \<open>
  \<^verbatim>\<open>put(D)\<close> is \<^verbatim>\<open>store\<close> into the index \<^verbatim>\<open>data\<close> of the document \<open>D\<close> with its
  field \<^verbatim>\<open>timestamp\<close> set to what \<^verbatim>\<open>to_es_timestamp\<close> makes of the clock: that document
  is what the client's \<^verbatim>\<open>index\<close> call receives, and each of its fields other than
  \<^verbatim>\<open>timestamp\<close> has the value it has in \<open>D\<close>.
\<close>

lemma put_is_store_of_stamped:
  "(let ts = to_es_timestamp (datetime_now L (world s));
        D = AList.update ''timestamp'' (PInt ts) (heap s body)
    in put L body s = store L ''data'' body (s\<lparr>heap := (heap s)(body := D)\<rparr>)
     \<and> (bound s \<longrightarrow>
          world (snd (put L body s)) = snd (es_index L ''data'' D (world s))
        \<and> fst (put L body s) = Inr (\<not> isl (fst (es_index L ''data'' D (world s)))))
     \<and> map_of D ''timestamp'' = Some (PInt ts)
     \<and> (\<forall>k. k \<noteq> ''timestamp'' \<longrightarrow> map_of D k = map_of (heap s body) k))"
  by (auto simp add: put_def Let_def store_def client_def exception_def update_conv'
      split: prod.splits sum.splits)

text \<open>
  \<^verbatim>\<open>put(D)\<close> changes the caller's dictionary itself: after the call the dictionary at the
  reference that was passed is \<open>D\<close> with the key \<^verbatim>\<open>timestamp\<close> set, whatever
  \<^verbatim>\<open>timestamp\<close> it held before, and whether or not the document could be stored; no other
  dictionary changes.
\<close>

lemma put_updates_in_place:
  "heap (snd (put L body s)) body =
     AList.update ''timestamp'' (PInt (to_es_timestamp (datetime_now L (world s)))) (heap s body)
   \<and> map_of (heap (snd (put L body s)) body) ''timestamp'' =
       Some (PInt (to_es_timestamp (datetime_now L (world s))))
   \<and> (\<forall>r. r \<noteq> body \<longrightarrow> heap (snd (put L body s)) r = heap s r)"
  by (simp add: put_def Let_def store_heap update_conv')

text \<open>
  C1. The stored timestamp is not always the millisecond epoch of the write. When the clock
  reads 2147483648003 milliseconds after the epoch, the float \<open>2147483648.003\<close> times
  \<open>1000\<close> is a float just below \<open>2147483648003\<close> and \<^verbatim>\<open>int\<close> truncates it: the
  document \<^verbatim>\<open>{'id': 5}\<close> is stored in \<^verbatim>\<open>data\<close> with its \<^verbatim>\<open>id\<close> unchanged and with
  the timestamp \<open>2147483648002\<close>, one millisecond early.
\<close>

theorem put_stores_stamp_one_millisecond_early:
  "epoch_us (datetime_now clock_2038_lib [(''data'', [])]) div 1000 = 2147483648003
   \<and> put clock_2038_lib 3 ((fresh [(''data'', [])] True)\<lparr>heap := (\<lambda>r. [(''id'', PInt 5)])\<rparr>) =
     (Inr True,
      \<lparr>world = [(''data'', [[(''id'', PInt 5), (''timestamp'', PInt 2147483648002)]])],
       bound = True, logged = [],
       heap = (\<lambda>r. [(''id'', PInt 5)])(3 := [(''id'', PInt 5), (''timestamp'', PInt 2147483648002)])\<rparr>)"
  by (simp add: put_def store_def client_def clock_2038_lib_def mem_lib_def fresh_def Let_def
      stamp_2038)

text \<open>
  C10. \<^verbatim>\<open>put(D)\<close> does overwrite the \<^verbatim>\<open>timestamp\<close> of the caller's own dictionary, but
  not always with the millisecond epoch of the write: at the same clock reading the
  dictionary at the caller's reference, which held the timestamp \<^verbatim>\<open>'2022-05-13'\<close>, holds
  \<open>2147483648002\<close> after the call, one millisecond early.
\<close>

theorem put_mutates_with_stamp_one_millisecond_early:
  "epoch_us (datetime_now clock_2038_lib []) div 1000 = 2147483648003
   \<and> heap (snd (put clock_2038_lib 7 ((fresh [] True)
        \<lparr>heap := (\<lambda>r. [(''id'', PInt 1), (''timestamp'', PStr ''2022-05-13'')])\<rparr>))) 7 =
     [(''id'', PInt 1), (''timestamp'', PInt 2147483648002)]"
  by (simp add: put_def store_heap clock_2038_lib_def mem_lib_def fresh_def Let_def stamp_2038)

section \<open>The timestamp helpers\<close>

text \<open>
  C9. The helpers do not round-trip on every datetime of whole milliseconds. The aware
  datetime 1970-01-01 00:00:01.001 UTC has the timestamp \<open>1.001\<close>, whose float times
  \<open>1000\<close> is the float just below \<open>1001\<close>; \<^verbatim>\<open>int\<close> truncates it to \<open>1000\<close> (as it
  does for the naive datetime of the same instant), and \<^verbatim>\<open>from_es_timestamp(1000)\<close> is
  1970-01-01 00:00:01.000 UTC, one millisecond earlier.
\<close>

theorem es_timestamp_round_trip_loses_millisecond:
  "timestamp \<lparr>tzinfo = Some pytz_utc, epoch_us = 1001000\<rparr> = fl (1001 / 1000)
   \<and> fl (fl (1001 / 1000) * 1000) = 1001 - 1 / 2 ^ 43
   \<and> to_es_timestamp \<lparr>tzinfo = Some pytz_utc, epoch_us = 1001000\<rparr> = 1000
   \<and> to_es_timestamp \<lparr>tzinfo = None, epoch_us = 1001000\<rparr> = 1000
   \<and> from_es_timestamp 1000 None = Inr \<lparr>tzinfo = Some pytz_utc, epoch_us = 1000000\<rparr>"
  by code_simp

section \<open>Index lifecycle\<close>

text \<open>
  C6, as the code has it. Whenever the existence probe returns: \<^verbatim>\<open>create_index\<close> returns
  \<^verbatim>\<open>False\<close> when the probe reports the index, and then the state is the one the probe
  left, so the create call is not issued; it returns \<^verbatim>\<open>False\<close>, after logging, when the
  create call raises. It returns \<^verbatim>\<open>True\<close> exactly when the probe reported no index and the
  create call returned.
\<close>

theorem create_index_contract:
  "(bound s \<and> indices_exists L name (world s) = (Inr v, w) \<and> truthy v \<longrightarrow>
      create_index L name st mp s = (Inr False, s\<lparr>world := w\<rparr>))
   \<and> (bound s \<and> indices_exists L name (world s) = (Inr v, w) \<and> \<not> truthy v
        \<and> indices_create L name st mp w = (Inl ex, w') \<longrightarrow>
      create_index L name st mp s =
        (Inr False,
         s\<lparr>world := w',
           logged := logged s @
             [(EXCEPTION, [Lit ''Got an error while creating the '', Quoted name,
                           Lit '' Elasticsearch index.'']),
              (EXCEPTION, [Lit ''  Message: '', Exc ex])]\<rparr>))
   \<and> (fst (create_index L name st mp s) = Inr True \<longleftrightarrow>
        bound s \<and> (\<exists>u w1. indices_exists L name (world s) = (Inr u, w1) \<and> \<not> truthy u
          \<and> (\<exists>r w2. indices_create L name st mp w1 = (Inr r, w2))))
   \<and> (fst (create_index L name st mp s) = Inr True \<longrightarrow>
        snd (create_index L name st mp s) =
          s\<lparr>world := snd (indices_create L name st mp (snd (indices_exists L name (world s))))\<rparr>)"
  by (auto simp add: create_index_def check_index_def client_def exception_def
      split: prod.splits sum.splits bool.splits if_splits)

theorem create_index_contract_witness:
  "create_index mem_lib ''data'' (PDict []) (PDict []) (fresh [(''data'', [])] True) =
     (Inr False, fresh [(''data'', [])] True)
   \<and> create_index readonly_lib ''logs'' (PDict []) (PDict []) (fresh [] True) =
     (Inr False,
      (fresh [] True)\<lparr>logged :=
         [(EXCEPTION, [Lit ''Got an error while creating the '', Quoted ''logs'',
                       Lit '' Elasticsearch index.'']),
          (EXCEPTION, [Lit ''  Message: '', Exc (ClientError ''cluster_block_exception'')])]\<rparr>)
   \<and> create_index mem_lib ''logs'' (PDict []) (PDict []) (fresh [(''data'', [])] True) =
     (Inr True, fresh [(''data'', []), (''logs'', [])] True)"
  using
    create_index_contract [where L = mem_lib and name = "''data''" and st = "PDict []"
      and mp = "PDict []" and s = "fresh [(''data'', [])] True" and v = "PBool True"
      and w = "[(''data'', [])]"]
    create_index_contract [where L = readonly_lib and name = "''logs''" and st = "PDict []"
      and mp = "PDict []" and s = "fresh [] True" and v = "PBool False" and w = "[]"
      and ex = "ClientError ''cluster_block_exception''" and w' = "[]"]
    create_index_contract [where L = mem_lib and name = "''logs''" and st = "PDict []"
      and mp = "PDict []" and s = "fresh [(''data'', [])] True"]
  by (simp add: mem_lib_def readonly_lib_def fresh_def acknowledged_def prod_eq_iff)

text \<open>
  C6, as the claim states it, fails: on an unreachable engine the creation fails, and
  \<^verbatim>\<open>create_index\<close> does not return \<^verbatim>\<open>False\<close> but raises the error of the existence
  probe.
\<close>

theorem create_index_counterexample:
  "fst (create_index down_lib ''data'' (PDict []) (PDict []) (fresh () True))
   = Inl (ClientError ''ConnectionError'')"
  by (simp add: create_index_def check_index_def client_def down_lib_def fresh_def
      connection_error_def)

text \<open>
  C7, as the code has it. Whenever the existence probe returns: \<^verbatim>\<open>delete_index\<close> returns
  \<^verbatim>\<open>False\<close> when the probe reports no index, and then the state is the one the probe left,
  so the delete call is not issued; it returns \<^verbatim>\<open>False\<close> when the delete call raises, when
  its response has no readable \<^verbatim>\<open>acknowledged\<close> field, and when that field is falsy. It
  returns \<^verbatim>\<open>True\<close> exactly when the deletion was acknowledged.
\<close>

theorem delete_index_contract:
  "(bound s \<and> indices_exists L name (world s) = (Inr v, w) \<and> \<not> truthy v \<longrightarrow>
      delete_index L name s = (Inr False, s\<lparr>world := w\<rparr>))
   \<and> (bound s \<and> indices_exists L name (world s) = (Inr v, w) \<and> truthy v
        \<and> indices_delete L name w = (Inl ex, w') \<longrightarrow>
      fst (delete_index L name s) = Inr False)
   \<and> (bound s \<and> indices_exists L name (world s) = (Inr v, w) \<and> truthy v
        \<and> indices_delete L name w = (Inr r, w') \<and> subscript r ''acknowledged'' = Inl ex \<longrightarrow>
      fst (delete_index L name s) = Inr False)
   \<and> (bound s \<and> indices_exists L name (world s) = (Inr v, w) \<and> truthy v
        \<and> indices_delete L name w = (Inr r, w') \<and> subscript r ''acknowledged'' = Inr a
        \<and> \<not> truthy a \<longrightarrow>
      fst (delete_index L name s) = Inr False)
   \<and> (fst (delete_index L name s) = Inr True \<longleftrightarrow>
        bound s \<and> (\<exists>u w1. indices_exists L name (world s) = (Inr u, w1) \<and> truthy u
          \<and> (\<exists>r' w2 a'. indices_delete L name w1 = (Inr r', w2)
                \<and> subscript r' ''acknowledged'' = Inr a' \<and> truthy a')))"
  by (auto simp add: delete_index_def client_def exception_def info_def error_def Let_def
      split: prod.splits sum.splits bool.splits if_splits)

theorem delete_index_contract_witness:
  "delete_index mem_lib ''logs'' (fresh [(''data'', [])] True) =
     (Inr False, fresh [(''data'', [])] True)
   \<and> fst (delete_index readonly_lib ''data'' (fresh [(''data'', [])] True)) = Inr False
   \<and> fst (delete_index mem_lib ''data'' (fresh [(''data'', [])] True)) = Inr True"
  using
    delete_index_contract [where L = mem_lib and name = "''logs''"
      and s = "fresh [(''data'', [])] True" and v = "PBool False" and w = "[(''data'', [])]"]
    delete_index_contract [where L = readonly_lib and name = "''data''"
      and s = "fresh [(''data'', [])] True" and v = "PBool True" and w = "[(''data'', [])]"
      and r = "PDict [(''acknowledged'', PBool False)]" and w' = "[(''data'', [])]"
      and a = "PBool False"]
    delete_index_contract [where L = mem_lib and name = "''data''"
      and s = "fresh [(''data'', [])] True"]
  by (simp add: mem_lib_def readonly_lib_def fresh_def acknowledged_def prod_eq_iff)

text \<open>
  C7, as the claim states it, fails: on an unreachable engine an error occurs, and
  \<^verbatim>\<open>delete_index\<close> does not return \<^verbatim>\<open>False\<close> but raises the error of the existence
  probe.
\<close>

theorem delete_index_counterexample:
  "fst (delete_index down_lib ''data'' (fresh () True)) = Inl (ClientError ''ConnectionError'')"
  by (simp add: delete_index_def client_def down_lib_def fresh_def connection_error_def)

text \<open>
  C8, as the code has it. \<^verbatim>\<open>setup\<close> probes for the index \<^verbatim>\<open>data\<close>. Whenever the probe
  returns: if it reports the index, \<^verbatim>\<open>setup\<close> returns \<^verbatim>\<open>True\<close> and does nothing else (no
  call but the probe, no log record), so a second call on an engine that has the index
  changes nothing; if it reports no index, \<^verbatim>\<open>setup\<close> is \<^verbatim>\<open>create_index\<close> of \<^verbatim>\<open>data\<close>
  with 2 shards, 2 replicas and the mapping of \<^verbatim>\<open>id\<close> as \<^verbatim>\<open>long\<close> and \<^verbatim>\<open>timestamp\<close> as
  \<^verbatim>\<open>date\<close> in the three formats: \<^verbatim>\<open>create_index\<close> probes again, and when that probe also
  reports no index \<^verbatim>\<open>setup\<close> returns \<^verbatim>\<open>True\<close> when the create call with these arguments
  returns and \<^verbatim>\<open>False\<close>, after logging two exception records, when it raises.
\<close>

theorem setup_idempotent:
  "(let settings = PDict [(''number_of_shards'', PInt 2), (''number_of_replicas'', PInt 2)];
        mappings = PDict [(''properties'', PDict
          [(''id'', PDict [(''type'', PStr ''long'')]),
           (''timestamp'', PDict
              [(''type'', PStr ''date''),
               (''format'', PStr ''yyyy-MM-dd HH:mm:ss||yyyy-MM-dd||epoch_millis'')])])]
    in (bound s \<and> indices_exists L ''data'' (world s) = (Inr v, w) \<and> truthy v \<longrightarrow>
          setup_es L s = (Inr True, s\<lparr>world := w\<rparr>))
     \<and> (bound s \<and> indices_exists L ''data'' (world s) = (Inr v, world s) \<and> truthy v \<longrightarrow>
          setup_es L s = (Inr True, s))
     \<and> (bound s \<and> indices_exists L ''data'' (world s) = (Inr v, w) \<and> \<not> truthy v \<longrightarrow>
          setup_es L s = create_index L ''data'' settings mappings (s\<lparr>world := w\<rparr>))
     \<and> (bound s \<and> indices_exists L ''data'' (world s) = (Inr v, w) \<and> \<not> truthy v
          \<and> indices_exists L ''data'' w = (Inr v1, w1) \<and> \<not> truthy v1
          \<and> indices_create L ''data'' settings mappings w1 = (Inr r, w2) \<longrightarrow>
          setup_es L s = (Inr True, s\<lparr>world := w2\<rparr>))
     \<and> (bound s \<and> indices_exists L ''data'' (world s) = (Inr v, w) \<and> \<not> truthy v
          \<and> indices_exists L ''data'' w = (Inr v1, w1) \<and> \<not> truthy v1
          \<and> indices_create L ''data'' settings mappings w1 = (Inl ex, w2) \<longrightarrow>
          setup_es L s =
            (Inr False,
             s\<lparr>world := w2,
               logged := logged s @
                 [(EXCEPTION, [Lit ''Got an error while creating the '', Quoted ''data'',
                               Lit '' Elasticsearch index.'']),
                  (EXCEPTION, [Lit ''  Message: '', Exc ex])]\<rparr>)))"
  by (auto simp add: setup_es_def create_index_def check_index_def client_def Let_def
      exception_def split: prod.splits sum.splits bool.splits if_splits)

theorem setup_idempotent_witness:
  "setup_es mem_lib (fresh [] True) = (Inr True, fresh [(''data'', [])] True)
   \<and> setup_es mem_lib (fresh [(''data'', [])] True) = (Inr True, fresh [(''data'', [])] True)"
  using
    setup_idempotent [where L = mem_lib and s = "fresh [] True" and v = "PBool False"
      and w = "[]" and ?v1.0 = "PBool False" and ?w1.0 = "[]" and r = acknowledged
      and ?w2.0 = "[(''data'', [])]"]
    setup_idempotent [where L = mem_lib and s = "fresh [(''data'', [])] True"
      and v = "PBool True" and w = "[(''data'', [])]"]
  by (simp add: mem_lib_def fresh_def Let_def create_index_def check_index_def client_def)

text \<open>
  C8, as the claim states it, fails: on an engine that refuses to create an index,
  \<^verbatim>\<open>setup\<close> returns \<^verbatim>\<open>False\<close> and the index \<^verbatim>\<open>data\<close> still does not exist; on an
  unreachable engine \<^verbatim>\<open>setup\<close> raises the error of the existence probe.
\<close>

theorem setup_counterexample:
  "setup_es readonly_lib (fresh [] True) =
     (Inr False,
      (fresh [] True)\<lparr>logged :=
         [(EXCEPTION, [Lit ''Got an error while creating the '', Quoted ''data'',
                       Lit '' Elasticsearch index.'']),
          (EXCEPTION, [Lit ''  Message: '', Exc (ClientError ''cluster_block_exception'')])]\<rparr>)
   \<and> map_of (world (snd (setup_es readonly_lib (fresh [] True)))) ''data'' = None
   \<and> fst (setup_es down_lib (fresh () True)) = Inl (ClientError ''ConnectionError'')"
  by (simp add: setup_es_def create_index_def check_index_def client_def exception_def
      readonly_lib_def mem_lib_def down_lib_def fresh_def connection_error_def Let_def)

section \<open>Searching\<close>

text \<open>
  C4. \<^verbatim>\<open>query\<close> never raises. It issues one search, of the given index, with the body
  \<^verbatim>\<open>{'query': query}\<close> around the unchanged query expression and with the given size,
  which is 10000 when the caller gives none. When the client attribute is unbound, when
  the search raises, or when a subscript of the response raises, it logs the exception and
  returns \<^verbatim>\<open>None\<close>.
\<close>

theorem query_contract:
  "(let n = (case sz of None \<Rightarrow> 10000 | Some k \<Rightarrow> k);
        sent = es_search L index (PDict [(''query'', q)]) n (world s);
        entry = (\<lambda>ex. (EXCEPTION, [Lit ''Got an exception while trying to search '', Quoted index,
                                   Lit '' Elasticsearch index: '', Exc ex]))
    in (\<exists>r s'. query L index q raw sz s = (Inr r, s'))
     \<and> query L index q raw None s = query L index q raw (Some 10000) s
     \<and> (bound s \<longrightarrow> world (snd (query L index q raw sz s)) = snd sent)
     \<and> (\<not> bound s \<longrightarrow>
          query L index q raw sz s =
            (Inr PNone, s\<lparr>logged := logged s @ [entry (AttributeError ''_ElasticSearch__es'')]\<rparr>))
     \<and> (\<forall>ex. bound s \<and> fst sent = Inl ex \<longrightarrow>
          query L index q raw sz s =
            (Inr PNone, s\<lparr>world := snd sent, logged := logged s @ [entry ex]\<rparr>))
     \<and> (\<forall>r ex. bound s \<and> fst sent = Inr r \<and> raw \<noteq> Some True
              \<and> (subscript r ''hits'' = Inl ex
                  \<or> (\<exists>h. subscript r ''hits'' = Inr h \<and> subscript h ''hits'' = Inl ex)) \<longrightarrow>
          query L index q raw sz s =
            (Inr PNone, s\<lparr>world := snd sent, logged := logged s @ [entry ex]\<rparr>)))"
  by (auto simp add: query_def client_def exception_def Let_def
      split: prod.splits sum.splits option.splits if_splits)

theorem query_contract_witness:
  "query down_lib ''data'' (PDict [(''match_all'', PDict [])]) None None (fresh () True) =
     (Inr PNone,
      (fresh () True)\<lparr>logged :=
         [(EXCEPTION, [Lit ''Got an exception while trying to search '', Quoted ''data'',
                       Lit '' Elasticsearch index: '', Exc (ClientError ''ConnectionError'')])]\<rparr>)
   \<and> query down_lib ''data'' (PDict [(''match_all'', PDict [])]) None None (fresh () False) =
     (Inr PNone,
      (fresh () False)\<lparr>logged :=
         [(EXCEPTION, [Lit ''Got an exception while trying to search '', Quoted ''data'',
                       Lit '' Elasticsearch index: '', Exc (AttributeError ''_ElasticSearch__es'')])]\<rparr>)"
  using
    query_contract [where L = down_lib and index = "''data''"
      and q = "PDict [(''match_all'', PDict [])]" and raw = None and sz = None
      and s = "fresh () True"]
    query_contract [where L = down_lib and index = "''data''"
      and q = "PDict [(''match_all'', PDict [])]" and raw = None and sz = None
      and s = "fresh () False"]
  by (simp add: down_lib_def fresh_def connection_error_def Let_def query_def client_def
      exception_def)

text \<open>
  C5, as the code has it. On the success path the two branches of the flag differ:
  \<^verbatim>\<open>raw=True\<close> returns the response of the search as it is, \<^verbatim>\<open>raw=False\<close> (and the
  omitted flag) returns \<^verbatim>\<open>response['hits']['hits']\<close>.
\<close>

theorem raw_flag_selects_result:
  "bound s \<and> es_search L index (PDict [(''query'', q)]) (case sz of None \<Rightarrow> 10000 | Some k \<Rightarrow> k)
       (world s) = (Inr r, w) \<longrightarrow>
     query L index q (Some True) sz s = (Inr r, s\<lparr>world := w\<rparr>)
   \<and> (\<forall>h hs. subscript r ''hits'' = Inr h \<and> subscript h ''hits'' = Inr hs \<longrightarrow>
         query L index q (Some False) sz s = (Inr hs, s\<lparr>world := w\<rparr>)
       \<and> query L index q None sz s = (Inr hs, s\<lparr>world := w\<rparr>))"
  by (auto simp add: query_def client_def exception_def Let_def
      split: prod.splits sum.splits option.splits if_splits)

theorem raw_flag_selects_result_witness:
  "query mem_lib ''data'' (PDict []) (Some True) (Some 5)
       (fresh [(''data'', [[(''id'', PInt 1)]])] True) =
     (Inr (PDict [(''hits'', PDict [(''hits'',
             PList [PDict [(''_source'', PDict [(''id'', PInt 1)])]])])]),
      fresh [(''data'', [[(''id'', PInt 1)]])] True)
   \<and> query mem_lib ''data'' (PDict []) (Some False) (Some 5)
       (fresh [(''data'', [[(''id'', PInt 1)]])] True) =
     (Inr (PList [PDict [(''_source'', PDict [(''id'', PInt 1)])]]),
      fresh [(''data'', [[(''id'', PInt 1)]])] True)"
  using raw_flag_selects_result [where L = mem_lib and index = "''data''" and q = "PDict []"
      and sz = "Some 5" and s = "fresh [(''data'', [[(''id'', PInt 1)]])] True"
      and r = "PDict [(''hits'', PDict [(''hits'',
             PList [PDict [(''_source'', PDict [(''id'', PInt 1)])]])])]"
      and w = "[(''data'', [[(''id'', PInt 1)]])]"]
  by (simp add: mem_lib_def fresh_def)

text \<open>
  C5, as the claim states it, fails: on an engine with an empty index \<^verbatim>\<open>data\<close> the
  search succeeds, \<^verbatim>\<open>raw=True\<close> returns the whole response and \<^verbatim>\<open>raw=False\<close> the empty
  list of hits.
\<close>

theorem raw_flag_counterexample:
  "fst (query mem_lib ''data'' (PDict [(''match_all'', PDict [])]) (Some True) None
         (fresh [(''data'', [])] True))
   \<noteq> fst (query mem_lib ''data'' (PDict [(''match_all'', PDict [])]) (Some False) None
         (fresh [(''data'', [])] True))"
  by (simp add: query_def client_def mem_lib_def fresh_def Let_def)

section \<open>The constructor\<close>

text \<open>
  C2, as the code has it. The TLS context is prepared before the \<^verbatim>\<open>try\<close> block. Once it
  is prepared, no exception reaches the caller and the object is constructed: a failure of
  the creation of the client, of the \<^verbatim>\<open>info\<close> probe, of reading the version from its
  response or of \<^verbatim>\<open>setup\<close> is caught and logged with one exception record; when nothing
  fails the version is logged and the state is the one \<^verbatim>\<open>setup\<close> leaves.
\<close>

theorem init_contract:
  "(let entry = (\<lambda>ex. (EXCEPTION, [Lit ''Got an exception while connecting to Elasticsearch by URL '',
                                   Str url, Lit '': '', Exc ex]));
        connected = (INFO, [Lit ''Successfully connected to Elasticsearch. Server version: '',
                            Val n])
    in (ssl_context L ROOT_CA (world s) = (Inr u, w) \<longrightarrow>
          fst (init L url user secret s) = Inr ())
     \<and> (ssl_context L ROOT_CA (world s) = (Inr u, w)
           \<and> Elasticsearch L url user secret w = (Inl ex, w1) \<longrightarrow>
          init L url user secret s =
            (Inr (), s\<lparr>world := w1, bound := False, logged := logged s @ [entry ex]\<rparr>))
     \<and> (ssl_context L ROOT_CA (world s) = (Inr u, w)
           \<and> Elasticsearch L url user secret w = (Inr u1, w1)
           \<and> es_info L w1 = (Inl ex, w2) \<longrightarrow>
          init L url user secret s =
            (Inr (), s\<lparr>world := w2, bound := True, logged := logged s @ [entry ex]\<rparr>))
     \<and> (ssl_context L ROOT_CA (world s) = (Inr u, w)
           \<and> Elasticsearch L url user secret w = (Inr u1, w1)
           \<and> es_info L w1 = (Inr i, w2)
           \<and> subscript i ''version'' = Inl ex \<longrightarrow>
          init L url user secret s =
            (Inr (), s\<lparr>world := w2, bound := True, logged := logged s @ [entry ex]\<rparr>))
     \<and> (ssl_context L ROOT_CA (world s) = (Inr u, w)
           \<and> Elasticsearch L url user secret w = (Inr u1, w1)
           \<and> es_info L w1 = (Inr i, w2)
           \<and> subscript i ''version'' = Inr v \<and> subscript v ''number'' = Inl ex \<longrightarrow>
          init L url user secret s =
            (Inr (), s\<lparr>world := w2, bound := True, logged := logged s @ [entry ex]\<rparr>))
     \<and> (ssl_context L ROOT_CA (world s) = (Inr u, w)
           \<and> Elasticsearch L url user secret w = (Inr u1, w1)
           \<and> es_info L w1 = (Inr i, w2)
           \<and> subscript i ''version'' = Inr v \<and> subscript v ''number'' = Inr n
           \<and> setup_es L (s\<lparr>bound := True, world := w2, logged := logged s @ [connected]\<rparr>)
               = (Inl ex, s3) \<longrightarrow>
          init L url user secret s = (Inr (), s3\<lparr>logged := logged s3 @ [entry ex]\<rparr>))
     \<and> (ssl_context L ROOT_CA (world s) = (Inr u, w)
           \<and> Elasticsearch L url user secret w = (Inr u1, w1)
           \<and> es_info L w1 = (Inr i, w2)
           \<and> subscript i ''version'' = Inr v \<and> subscript v ''number'' = Inr n
           \<and> setup_es L (s\<lparr>bound := True, world := w2, logged := logged s @ [connected]\<rparr>)
               = (Inr r, s3) \<longrightarrow>
          init L url user secret s = (Inr (), s3)))"
  by (auto simp add: init_def client_def exception_def info_def Let_def
      split: prod.splits sum.splits option.splits if_splits)

theorem init_contract_witness:
  "init down_lib ''https://my.es.cluster:9200'' ''admin'' ''password'' (fresh () False) =
     (Inr (),
      (fresh () True)\<lparr>logged :=
         [(EXCEPTION, [Lit ''Got an exception while connecting to Elasticsearch by URL '',
                       Str ''https://my.es.cluster:9200'', Lit '': '',
                       Exc (ClientError ''ConnectionError'')])]\<rparr>)
   \<and> init (mem_lib\<lparr>es_info := (\<lambda>w. (Inr (PDict [(''tagline'', PStr ''You Know, for Search'')]), w))\<rparr>)
        ''https://my.es.cluster:9200'' ''admin'' ''password'' (fresh [] False) =
     (Inr (),
      (fresh [] True)\<lparr>logged :=
         [(EXCEPTION, [Lit ''Got an exception while connecting to Elasticsearch by URL '',
                       Str ''https://my.es.cluster:9200'', Lit '': '',
                       Exc (KeyError ''version'')])]\<rparr>)
   \<and> init mem_lib ''https://my.es.cluster:9200'' ''admin'' ''password'' (fresh [] False) =
     (Inr (),
      (fresh [(''data'', [])] True)\<lparr>logged :=
         [(INFO, [Lit ''Successfully connected to Elasticsearch. Server version: '',
                  Val (PStr ''8.0.0'')])]\<rparr>)"
proof -
  have down: "init down_lib ''https://my.es.cluster:9200'' ''admin'' ''password'' (fresh () False) =
     (Inr (),
      (fresh () True)\<lparr>logged :=
         [(EXCEPTION, [Lit ''Got an exception while connecting to Elasticsearch by URL '',
                       Str ''https://my.es.cluster:9200'', Lit '': '',
                       Exc (ClientError ''ConnectionError'')])]\<rparr>)"
    using init_contract [where L = down_lib and url = "''https://my.es.cluster:9200''"
      and user = "''admin''" and secret = "''password''" and s = "fresh () False"
      and u = "()" and w = "()" and ?u1.0 = "()" and ?w1.0 = "()"
      and ex = "ClientError ''ConnectionError''" and ?w2.0 = "()"]
    by (simp add: down_lib_def fresh_def connection_error_def Let_def)
  have no_version:
    "init (mem_lib\<lparr>es_info := (\<lambda>w. (Inr (PDict [(''tagline'', PStr ''You Know, for Search'')]), w))\<rparr>)
        ''https://my.es.cluster:9200'' ''admin'' ''password'' (fresh [] False) =
     (Inr (),
      (fresh [] True)\<lparr>logged :=
         [(EXCEPTION, [Lit ''Got an exception while connecting to Elasticsearch by URL '',
                       Str ''https://my.es.cluster:9200'', Lit '': '',
                       Exc (KeyError ''version'')])]\<rparr>)"
    using init_contract [where
      L = "mem_lib\<lparr>es_info := (\<lambda>w. (Inr (PDict [(''tagline'', PStr ''You Know, for Search'')]), w))\<rparr>"
      and url = "''https://my.es.cluster:9200''"
      and user = "''admin''" and secret = "''password''" and s = "fresh [] False"
      and u = "()" and w = "[]" and ?u1.0 = "()" and ?w1.0 = "[]"
      and i = "PDict [(''tagline'', PStr ''You Know, for Search'')]" and ?w2.0 = "[]"
      and ex = "KeyError ''version''"]
    by (simp add: mem_lib_def fresh_def Let_def)
  have up: "init mem_lib ''https://my.es.cluster:9200'' ''admin'' ''password'' (fresh [] False) =
     (Inr (),
      (fresh [(''data'', [])] True)\<lparr>logged :=
         [(INFO, [Lit ''Successfully connected to Elasticsearch. Server version: '',
                  Val (PStr ''8.0.0'')])]\<rparr>)"
    using init_contract [where L = mem_lib and url = "''https://my.es.cluster:9200''"
      and user = "''admin''" and secret = "''password''" and s = "fresh [] False"
      and u = "()" and w = "[]" and ?u1.0 = "()" and ?w1.0 = "[]"
      and i = "PDict [(''version'', PDict [(''number'', PStr ''8.0.0'')])]" and ?w2.0 = "[]"
      and v = "PDict [(''number'', PStr ''8.0.0'')]" and n = "PStr ''8.0.0''" and r = True
      and ?s3.0 = "(fresh [(''data'', [])] True)\<lparr>logged :=
         [(INFO, [Lit ''Successfully connected to Elasticsearch. Server version: '',
                  Val (PStr ''8.0.0'')])]\<rparr>"]
    by (simp add: mem_lib_def fresh_def Let_def setup_es_def create_index_def check_index_def
        client_def)
  from down no_version up show ?thesis by (intro conjI)
qed

text \<open>
  C2, as the claim states it, fails: where the loading of the trust anchor raises, the
  constructor raises the same exception to its caller.
\<close>

theorem init_counterexample:
  "fst (init no_ca_lib ''https://my.es.cluster:9200'' ''admin'' ''password'' (fresh () False))
   = Inl (ClientError ''IsADirectoryError'')"
  by (simp add: init_def no_ca_lib_def down_lib_def fresh_def Let_def)

section \<open>Which errors are caught\<close>

lemma empty_index_returns: "\<exists>b s'. empty_index L name s = (Inr b, s')"
  by (auto simp add: empty_index_def Let_def split: prod.splits sum.splits)

lemma query_returns: "\<exists>r s'. query L index q raw sz s = (Inr r, s')"
  by (auto simp add: query_def Let_def split: prod.splits sum.splits option.splits)

lemma store_returns: "\<exists>b s'. store L index body s = (Inr b, s')"
  by (auto simp add: store_def split: prod.splits sum.splits)

lemma get_returns: "\<exists>r s'. get L q s = (Inr r, s')"
  unfolding get_def by (rule query_returns)

lemma put_returns: "\<exists>b s'. put L body s = (Inr b, s')"
  unfolding put_def Let_def by (rule store_returns)

lemma empty_index_caught:
  "bound s \<Longrightarrow> es_delete_by_query L name (PDict [(''match_all'', PDict [])]) (world s) = (Inl ex, w) \<Longrightarrow>
   empty_index L name s =
     (Inr False,
      s\<lparr>world := w,
        logged := logged s @
          [(EXCEPTION, [Lit ''Got an exception while emptying '', Quoted name,
                        Lit '' Elasticsearch index: '', Exc ex])]\<rparr>)"
  by (simp add: empty_index_def client_def exception_def Let_def)

lemma store_caught:
  "bound s \<Longrightarrow> es_index L index (heap s body) (world s) = (Inl ex, w) \<Longrightarrow>
   store L index body s =
     (Inr False,
      s\<lparr>world := w,
        logged := logged s @
          [(EXCEPTION, [Lit ''Got an exception while trying to store data in '', Quoted index,
                        Lit '' Elasticsearch index: '', Exc ex])]\<rparr>)"
  by (simp add: store_def client_def exception_def)

lemma query_caught:
  "bound s \<Longrightarrow> es_search L index (PDict [(''query'', q)]) (case sz of None \<Rightarrow> 10000 | Some k \<Rightarrow> k)
       (world s) = (Inl ex, w) \<Longrightarrow>
   query L index q raw sz s =
     (Inr PNone,
      s\<lparr>world := w,
        logged := logged s @
          [(EXCEPTION, [Lit ''Got an exception while trying to search '', Quoted index,
                        Lit '' Elasticsearch index: '', Exc ex])]\<rparr>)"
  by (simp add: query_def client_def exception_def Let_def)

lemma ping_raises:
  "bound s \<Longrightarrow> fst (ping L s) = Inl ex \<longleftrightarrow> fst (es_ping L (world s)) = Inl ex"
  by (auto simp add: ping_def client_def split: prod.splits sum.splits)

lemma check_index_raises:
  "bound s \<Longrightarrow> fst (check_index L name s) = Inl ex \<longleftrightarrow>
     fst (indices_exists L name (world s)) = Inl ex"
  by (auto simp add: check_index_def client_def split: prod.splits sum.splits)

lemma create_index_returns:
  "bound s \<Longrightarrow> fst (indices_exists L name (world s)) = Inr v \<Longrightarrow>
   \<exists>b s'. create_index L name st mp s = (Inr b, s')"
  by (auto simp add: create_index_def check_index_def client_def
      split: prod.splits sum.splits bool.splits)

lemma delete_index_returns:
  "bound s \<Longrightarrow> fst (indices_exists L name (world s)) = Inr v \<Longrightarrow>
   \<exists>b s'. delete_index L name s = (Inr b, s')"
  by (auto simp add: delete_index_def client_def Let_def
      split: prod.splits sum.splits bool.splits)

lemma setup_returns:
  "bound s \<Longrightarrow> indices_exists L ''data'' (world s) = (Inr v, w) \<Longrightarrow>
   truthy v \<or> (\<exists>v1. fst (indices_exists L ''data'' w) = Inr v1) \<Longrightarrow>
   \<exists>b s'. setup_es L s = (Inr b, s')"
  by (auto simp add: setup_es_def create_index_def check_index_def client_def Let_def
      split: prod.splits sum.splits bool.splits)

text \<open>
  C3, as the code has it. \<^verbatim>\<open>empty_index\<close>, \<^verbatim>\<open>query\<close>, \<^verbatim>\<open>store\<close>, \<^verbatim>\<open>get\<close> and
  \<^verbatim>\<open>put\<close> never raise: an error of their client call is caught, logged with one exception
  record and mapped to \<^verbatim>\<open>False\<close> (\<^verbatim>\<open>None\<close> for \<^verbatim>\<open>query\<close> and \<^verbatim>\<open>get\<close>).
  \<^verbatim>\<open>create_index\<close>, \<^verbatim>\<open>delete_index\<close> and \<^verbatim>\<open>setup\<close> do not raise when their existence
  probes return: an error of the create call is caught, logged with two exception records
  and mapped to \<^verbatim>\<open>False\<close>, an error of the delete call is caught, logged with one exception
  record and mapped to \<^verbatim>\<open>False\<close>. \<^verbatim>\<open>ping\<close> and \<^verbatim>\<open>check_index\<close> have no handler: on
  a bound client they raise exactly what the ping or the existence probe raises.
\<close>

theorem client_errors_caught:
  "(\<exists>b s'. empty_index L name s = (Inr b, s'))
   \<and> (\<exists>r s'. query L index q raw sz s = (Inr r, s'))
   \<and> (\<exists>b s'. store L index body s = (Inr b, s'))
   \<and> (\<exists>r s'. get L q s = (Inr r, s'))
   \<and> (\<exists>b s'. put L body s = (Inr b, s'))
   \<and> (bound s \<and> es_delete_by_query L name (PDict [(''match_all'', PDict [])]) (world s)
         = (Inl ex, w) \<longrightarrow>
        empty_index L name s =
          (Inr False,
           s\<lparr>world := w, logged := logged s @
             [(EXCEPTION, [Lit ''Got an exception while emptying '', Quoted name,
                           Lit '' Elasticsearch index: '', Exc ex])]\<rparr>))
   \<and> (bound s \<and> es_search L index (PDict [(''query'', q)])
                    (case sz of None \<Rightarrow> 10000 | Some k \<Rightarrow> k) (world s) = (Inl ex, w) \<longrightarrow>
        query L index q raw sz s =
          (Inr PNone,
           s\<lparr>world := w, logged := logged s @
             [(EXCEPTION, [Lit ''Got an exception while trying to search '', Quoted index,
                           Lit '' Elasticsearch index: '', Exc ex])]\<rparr>))
   \<and> (bound s \<and> es_index L index (heap s body) (world s) = (Inl ex, w) \<longrightarrow>
        store L index body s =
          (Inr False,
           s\<lparr>world := w, logged := logged s @
             [(EXCEPTION, [Lit ''Got an exception while trying to store data in '', Quoted index,
                           Lit '' Elasticsearch index: '', Exc ex])]\<rparr>))
   \<and> (bound s \<and> es_search L ''data'' (PDict [(''query'', if q = PNone then PDict [] else q)])
                    10000 (world s) = (Inl ex, w) \<longrightarrow>
        get L q s =
          (Inr PNone,
           s\<lparr>world := w, logged := logged s @
             [(EXCEPTION, [Lit ''Got an exception while trying to search '', Quoted ''data'',
                           Lit '' Elasticsearch index: '', Exc ex])]\<rparr>))
   \<and> (bound s \<and> es_index L ''data''
                    (AList.update ''timestamp''
                       (PInt (to_es_timestamp (datetime_now L (world s)))) (heap s body))
                    (world s) = (Inl ex, w) \<longrightarrow>
        put L body s =
          (Inr False,
           s\<lparr>world := w,
             heap := (heap s)(body := AList.update ''timestamp''
                       (PInt (to_es_timestamp (datetime_now L (world s)))) (heap s body)),
             logged := logged s @
             [(EXCEPTION, [Lit ''Got an exception while trying to store data in '', Quoted ''data'',
                           Lit '' Elasticsearch index: '', Exc ex])]\<rparr>))
   \<and> (bound s \<and> indices_exists L name (world s) = (Inr v, w) \<and> \<not> truthy v
        \<and> indices_create L name st mp w = (Inl ex, w') \<longrightarrow>
        create_index L name st mp s =
          (Inr False,
           s\<lparr>world := w', logged := logged s @
             [(EXCEPTION, [Lit ''Got an error while creating the '', Quoted name,
                           Lit '' Elasticsearch index.'']),
              (EXCEPTION, [Lit ''  Message: '', Exc ex])]\<rparr>))
   \<and> (bound s \<and> indices_exists L name (world s) = (Inr v, w) \<and> truthy v
        \<and> indices_delete L name w = (Inl ex, w') \<longrightarrow>
        delete_index L name s =
          (Inr False,
           s\<lparr>world := w', logged := logged s @
             [(EXCEPTION, [Lit ''Got an exception while trying to delete '', Quoted name,
                           Lit '' Elasticsearch index: '', Exc ex])]\<rparr>))
   \<and> (bound s \<and> fst (indices_exists L name (world s)) = Inr v \<longrightarrow>
        (\<exists>b s'. create_index L name st mp s = (Inr b, s'))
      \<and> (\<exists>b s'. delete_index L name s = (Inr b, s')))
   \<and> (bound s \<and> indices_exists L ''data'' (world s) = (Inr v, w)
        \<and> (truthy v \<or> (\<exists>v1. fst (indices_exists L ''data'' w) = Inr v1)) \<longrightarrow>
        (\<exists>b s'. setup_es L s = (Inr b, s')))
   \<and> (bound s \<longrightarrow>
        (fst (ping L s) = Inl ex \<longleftrightarrow> fst (es_ping L (world s)) = Inl ex)
      \<and> (fst (check_index L name s) = Inl ex \<longleftrightarrow>
           fst (indices_exists L name (world s)) = Inl ex))"
proof -
  have caught1: "bound s \<and> es_delete_by_query L name (PDict [(''match_all'', PDict [])]) (world s)
         = (Inl ex, w) \<longrightarrow>
        empty_index L name s =
          (Inr False,
           s\<lparr>world := w, logged := logged s @
             [(EXCEPTION, [Lit ''Got an exception while emptying '', Quoted name,
                           Lit '' Elasticsearch index: '', Exc ex])]\<rparr>)"
    by (simp add: empty_index_caught)
  have caught2: "bound s \<and> es_search L index (PDict [(''query'', q)])
                    (case sz of None \<Rightarrow> 10000 | Some k \<Rightarrow> k) (world s) = (Inl ex, w) \<longrightarrow>
        query L index q raw sz s =
          (Inr PNone,
           s\<lparr>world := w, logged := logged s @
             [(EXCEPTION, [Lit ''Got an exception while trying to search '', Quoted index,
                           Lit '' Elasticsearch index: '', Exc ex])]\<rparr>)"
    by (simp add: query_caught)
  have caught3: "bound s \<and> es_index L index (heap s body) (world s) = (Inl ex, w) \<longrightarrow>
        store L index body s =
          (Inr False,
           s\<lparr>world := w, logged := logged s @
             [(EXCEPTION, [Lit ''Got an exception while trying to store data in '', Quoted index,
                           Lit '' Elasticsearch index: '', Exc ex])]\<rparr>)"
    by (simp add: store_caught)
  have caught4: "bound s \<and> es_search L ''data'' (PDict [(''query'', if q = PNone then PDict [] else q)])
                    10000 (world s) = (Inl ex, w) \<longrightarrow>
        get L q s =
          (Inr PNone,
           s\<lparr>world := w, logged := logged s @
             [(EXCEPTION, [Lit ''Got an exception while trying to search '', Quoted ''data'',
                           Lit '' Elasticsearch index: '', Exc ex])]\<rparr>)"
    by (simp add: get_def query_def client_def exception_def Let_def)
  have caught5: "bound s \<and> es_index L ''data''
                    (AList.update ''timestamp''
                       (PInt (to_es_timestamp (datetime_now L (world s)))) (heap s body))
                    (world s) = (Inl ex, w) \<longrightarrow>
        put L body s =
          (Inr False,
           s\<lparr>world := w,
             heap := (heap s)(body := AList.update ''timestamp''
                       (PInt (to_es_timestamp (datetime_now L (world s)))) (heap s body)),
             logged := logged s @
             [(EXCEPTION, [Lit ''Got an exception while trying to store data in '', Quoted ''data'',
                           Lit '' Elasticsearch index: '', Exc ex])]\<rparr>)"
    by (simp add: put_def store_def client_def exception_def Let_def)
  have caught6: "bound s \<and> indices_exists L name (world s) = (Inr v, w) \<and> \<not> truthy v
        \<and> indices_create L name st mp w = (Inl ex, w') \<longrightarrow>
        create_index L name st mp s =
          (Inr False,
           s\<lparr>world := w', logged := logged s @
             [(EXCEPTION, [Lit ''Got an error while creating the '', Quoted name,
                           Lit '' Elasticsearch index.'']),
              (EXCEPTION, [Lit ''  Message: '', Exc ex])]\<rparr>)"
    by (simp add: create_index_def check_index_def client_def exception_def)
  have caught7: "bound s \<and> indices_exists L name (world s) = (Inr v, w) \<and> truthy v
        \<and> indices_delete L name w = (Inl ex, w') \<longrightarrow>
        delete_index L name s =
          (Inr False,
           s\<lparr>world := w', logged := logged s @
             [(EXCEPTION, [Lit ''Got an exception while trying to delete '', Quoted name,
                           Lit '' Elasticsearch index: '', Exc ex])]\<rparr>)"
    by (simp add: delete_index_def client_def exception_def Let_def)
  have probed: "bound s \<and> fst (indices_exists L name (world s)) = Inr v \<longrightarrow>
        (\<exists>b s'. create_index L name st mp s = (Inr b, s'))
      \<and> (\<exists>b s'. delete_index L name s = (Inr b, s'))"
    using create_index_returns [of s L name v st mp] delete_index_returns [of s L name v]
    by blast
  have probed_setup: "bound s \<and> indices_exists L ''data'' (world s) = (Inr v, w)
        \<and> (truthy v \<or> (\<exists>v1. fst (indices_exists L ''data'' w) = Inr v1)) \<longrightarrow>
        (\<exists>b s'. setup_es L s = (Inr b, s'))"
    using setup_returns [of s L v w] by blast
  have bare: "bound s \<longrightarrow>
        (fst (ping L s) = Inl ex \<longleftrightarrow> fst (es_ping L (world s)) = Inl ex)
      \<and> (fst (check_index L name s) = Inl ex \<longleftrightarrow>
           fst (indices_exists L name (world s)) = Inl ex)"
    by (simp add: ping_raises check_index_raises)
  show ?thesis
    by (intro conjI empty_index_returns query_returns store_returns get_returns put_returns
        caught1 caught2 caught3 caught4 caught5 caught6 caught7 probed probed_setup bare)
qed

theorem client_errors_caught_witness:
  "store down_lib ''data'' 0 (fresh () True) =
     (Inr False,
      (fresh () True)\<lparr>logged :=
         [(EXCEPTION, [Lit ''Got an exception while trying to store data in '', Quoted ''data'',
                       Lit '' Elasticsearch index: '', Exc (ClientError ''ConnectionError'')])]\<rparr>)
   \<and> fst (empty_index down_lib ''data'' (fresh () True)) = Inr False
   \<and> fst (query down_lib ''data'' PNone None None (fresh () True)) = Inr PNone
   \<and> get down_lib PNone (fresh () True) =
     (Inr PNone,
      (fresh () True)\<lparr>logged :=
         [(EXCEPTION, [Lit ''Got an exception while trying to search '', Quoted ''data'',
                       Lit '' Elasticsearch index: '', Exc (ClientError ''ConnectionError'')])]\<rparr>)
   \<and> put down_lib 0 (fresh () True) =
     (Inr False,
      (fresh () True)\<lparr>heap := (\<lambda>r. [])(0 := [(''timestamp'', PInt 1652400000250)]), logged :=
         [(EXCEPTION, [Lit ''Got an exception while trying to store data in '', Quoted ''data'',
                       Lit '' Elasticsearch index: '', Exc (ClientError ''ConnectionError'')])]\<rparr>)
   \<and> fst (create_index mem_lib ''data'' (PDict []) (PDict []) (fresh [(''data'', [])] True))
       = Inr False
   \<and> fst (setup_es mem_lib (fresh [(''data'', [])] True)) = Inr True
   \<and> create_index readonly_lib ''logs'' (PDict []) (PDict []) (fresh [] True) =
     (Inr False,
      (fresh [] True)\<lparr>logged :=
         [(EXCEPTION, [Lit ''Got an error while creating the '', Quoted ''logs'',
                       Lit '' Elasticsearch index.'']),
          (EXCEPTION, [Lit ''  Message: '', Exc (ClientError ''cluster_block_exception'')])]\<rparr>)"
proof -
  have down:
    "store down_lib ''data'' 0 (fresh () True) =
     (Inr False,
      (fresh () True)\<lparr>logged :=
         [(EXCEPTION, [Lit ''Got an exception while trying to store data in '', Quoted ''data'',
                       Lit '' Elasticsearch index: '', Exc (ClientError ''ConnectionError'')])]\<rparr>)
   \<and> fst (empty_index down_lib ''data'' (fresh () True)) = Inr False
   \<and> fst (query down_lib ''data'' PNone None None (fresh () True)) = Inr PNone
   \<and> get down_lib PNone (fresh () True) =
     (Inr PNone,
      (fresh () True)\<lparr>logged :=
         [(EXCEPTION, [Lit ''Got an exception while trying to search '', Quoted ''data'',
                       Lit '' Elasticsearch index: '', Exc (ClientError ''ConnectionError'')])]\<rparr>)
   \<and> put down_lib 0 (fresh () True) =
     (Inr False,
      (fresh () True)\<lparr>heap := (\<lambda>r. [])(0 := [(''timestamp'', PInt 1652400000250)]), logged :=
         [(EXCEPTION, [Lit ''Got an exception while trying to store data in '', Quoted ''data'',
                       Lit '' Elasticsearch index: '', Exc (ClientError ''ConnectionError'')])]\<rparr>)"
    using client_errors_caught [where L = down_lib and name = "''data''"
      and index = "''data''" and q = PNone and raw = None and sz = None and body = 0
      and s = "fresh () True" and ex = "ClientError ''ConnectionError''" and w = "()"]
    by (auto simp add: down_lib_def fresh_def connection_error_def now_ms)
  have mem:
    "fst (create_index mem_lib ''data'' (PDict []) (PDict []) (fresh [(''data'', [])] True))
       = Inr False
     \<and> fst (setup_es mem_lib (fresh [(''data'', [])] True)) = Inr True"
    using client_errors_caught [where L = mem_lib and name = "''data''"
      and st = "PDict []" and mp = "PDict []"
      and s = "fresh [(''data'', [])] True" and v = "PBool True" and w = "[(''data'', [])]"]
    by (auto simp add: mem_lib_def fresh_def create_index_def check_index_def setup_es_def
        client_def)
  have readonly:
    "create_index readonly_lib ''logs'' (PDict []) (PDict []) (fresh [] True) =
     (Inr False,
      (fresh [] True)\<lparr>logged :=
         [(EXCEPTION, [Lit ''Got an error while creating the '', Quoted ''logs'',
                       Lit '' Elasticsearch index.'']),
          (EXCEPTION, [Lit ''  Message: '', Exc (ClientError ''cluster_block_exception'')])]\<rparr>)"
    using client_errors_caught [where L = readonly_lib and name = "''logs''"
      and st = "PDict []" and mp = "PDict []" and s = "fresh [] True" and v = "PBool False"
      and w = "[]" and ex = "ClientError ''cluster_block_exception''" and w' = "[]"]
    by (simp add: readonly_lib_def mem_lib_def fresh_def)
  from down mem readonly show ?thesis by simp
qed

text \<open>
  C3, as the claim states it, fails: on an unreachable engine \<^verbatim>\<open>check_index\<close> and
  \<^verbatim>\<open>setup\<close> raise the error of the client to their caller.
\<close>

theorem probes_raise_counterexample:
  "fst (check_index down_lib ''data'' (fresh () True)) = Inl (ClientError ''ConnectionError'')
   \<and> fst (setup_es down_lib (fresh () True)) = Inl (ClientError ''ConnectionError'')"
  by (simp add: check_index_def setup_es_def client_def down_lib_def fresh_def
      connection_error_def)

end
